theory Spec2Isabelle
  imports Complex_Main
begin

section \<open>Constants (core/constants.js)\<close>

text \<open>
  JavaScript numbers are modelled as reals: every value that occurs below is a finite
  number, and the operations used on them (addition, \<open>Math.min\<close>, \<open>Math.max\<close>,
  comparison) are the real ones on such values.
\<close>

definition STRESS_LOW :: real where "STRESS_LOW = 30"
definition STRESS_MEDIUM :: real where "STRESS_MEDIUM = 50"
definition STRESS_HIGH :: real where "STRESS_HIGH = 70"
definition STRESS_CRITICAL :: real where "STRESS_CRITICAL = 90"

definition HEALTH_HEALTHY :: real where "HEALTH_HEALTHY = 70"
definition HEALTH_HURT :: real where "HEALTH_HURT = 50"
definition HEALTH_WOUNDED :: real where "HEALTH_WOUNDED = 30"
definition HEALTH_CRITICAL :: real where "HEALTH_CRITICAL = 10"

definition DETECTION_SAFE :: real where "DETECTION_SAFE = 20"
definition DETECTION_NOTICED :: real where "DETECTION_NOTICED = 40"
definition DETECTION_SUSPICIOUS :: real where "DETECTION_SUSPICIOUS = 60"
definition DETECTION_SPOTTED :: real where "DETECTION_SPOTTED = 80"
definition DETECTION_CAUGHT :: real where "DETECTION_CAUGHT = 100"

lemmas thresholds =
  STRESS_LOW_def STRESS_MEDIUM_def STRESS_HIGH_def STRESS_CRITICAL_def
  HEALTH_HEALTHY_def HEALTH_HURT_def HEALTH_WOUNDED_def HEALTH_CRITICAL_def
  DETECTION_SAFE_def DETECTION_NOTICED_def DETECTION_SUSPICIOUS_def
  DETECTION_SPOTTED_def DETECTION_CAUGHT_def

text \<open>\<open>CONDITION_EFFECTS['injured'].effects.bleedRate\<close>: health lost per tick.\<close>

definition bleedRate :: real where "bleedRate = 2"

text \<open>
  The names every object inherits from \<open>Object.prototype\<close>. A property read
  \<open>obj[name]\<close> on a plain object or class instance finds them through the prototype
  chain, and each of them is a truthy value.
\<close>

definition object_prototype_names :: "string list" where
  "object_prototype_names =
     [''constructor'', ''toString'', ''toLocaleString'', ''valueOf'', ''hasOwnProperty'',
      ''isPrototypeOf'', ''propertyIsEnumerable'', ''__proto__'', ''__defineGetter__'',
      ''__defineSetter__'', ''__lookupGetter__'', ''__lookupSetter__'']"

section \<open>Vitals (pillars/vitals.js)\<close>

text \<open>What a property read can yield, as far as the callers below distinguish it.\<close>

datatype js_value = JNumber real | JObject | JFunction | JUndefined

record vitals_system =
  health :: real
  maxHealth :: real
  stamina :: real
  maxStamina :: real
  stress :: real
  detection :: real
  conditions :: "string set"
  effects :: "(string \<times> real) list"

text \<open>The constructor with an empty config.\<close>

definition new_VitalsSystem :: vitals_system where
  "new_VitalsSystem =
     \<lparr>health = 100, maxHealth = 100, stamina = 100, maxStamina = 100,
      stress = 0, detection = 0, conditions = {}, effects = []\<rparr>"

definition autoConditions :: "string set" where
  "autoConditions = {''high-stress'', ''injured'', ''exhausted'', ''panicked''}"

definition updateConditions :: "'a vitals_system_scheme \<Rightarrow> 'a vitals_system_scheme" where
  "updateConditions v =
     (let c0 = conditions v - autoConditions;
          c1 = (if stress v > STRESS_HIGH then insert ''high-stress'' c0 else c0);
          c2 = (if stress v > STRESS_CRITICAL then insert ''panicked'' c1 else c1);
          c3 = (if health v < HEALTH_WOUNDED then insert ''injured'' c2 else c2);
          c4 = (if stamina v < 20 then insert ''exhausted'' c3 else c3)
      in v\<lparr>conditions := c4\<rparr>)"

text \<open>The methods of the class, found on its prototype.\<close>

definition vitals_method_names :: "string list" where
  "vitals_method_names =
     [''getHealthStatus'', ''getStressStatus'', ''getDetectionStatus'', ''modifyVital'',
      ''updateConditions'', ''getEffectModifier'', ''applyEffect'', ''tick'', ''serialize'']"

text \<open>
  \<open>this[name]\<close> on an instance of \<open>VitalsSystem\<close> itself (an instance of a subclass
  has the subclass's fields and methods as further properties).
\<close>

definition vitals_property :: "vitals_system \<Rightarrow> string \<Rightarrow> js_value" where
  "vitals_property v name =
     (if name = ''health'' then JNumber (health v)
      else if name = ''maxHealth'' then JNumber (maxHealth v)
      else if name = ''stamina'' then JNumber (stamina v)
      else if name = ''maxStamina'' then JNumber (maxStamina v)
      else if name = ''stress'' then JNumber (stress v)
      else if name = ''detection'' then JNumber (detection v)
      else if name = ''conditions'' \<or> name = ''effects'' \<or> name = ''__proto__'' then JObject
      else if name \<in> set vitals_method_names \<or> name \<in> set object_prototype_names
        then JFunction
      else JUndefined)"

text \<open>
  What \<open>modifyVital(vital, amount)\<close> does to the object, for an instance of the class
  or of a subclass: the switch, then \<open>updateConditions()\<close>.
\<close>

definition modifyVital_update ::
  "string \<Rightarrow> real \<Rightarrow> 'a vitals_system_scheme \<Rightarrow> 'a vitals_system_scheme" where
  "modifyVital_update vital amount v =
     (let v1 =
        (if vital = ''health''
           then v\<lparr>health := max 0 (min (maxHealth v) (health v + amount))\<rparr>
         else if vital = ''stamina''
           then v\<lparr>stamina := max 0 (min (maxStamina v) (stamina v + amount))\<rparr>
         else if vital = ''stress''
           then v\<lparr>stress := max 0 (min 100 (stress v + amount))\<rparr>
         else if vital = ''detection''
           then v\<lparr>detection := max 0 (min 100 (detection v + amount))\<rparr>
         else v)
      in updateConditions v1)"

text \<open>
  \<open>modifyVital(vital, amount)\<close> on a \<open>VitalsSystem\<close>: the update, then
  \<open>return this[vital]\<close>. The result pairs the returned value with the updated object.
\<close>

definition modifyVital :: "string \<Rightarrow> real \<Rightarrow> vitals_system \<Rightarrow> js_value \<times> vitals_system" where
  "modifyVital vital amount v =
     (let v2 = modifyVital_update vital amount v
      in (vitals_property v2 vital, v2))"

text \<open>The four vitals by name, and the bound the source clamps each one to.\<close>

definition vital_names :: "string set" where
  "vital_names = {''health'', ''stamina'', ''stress'', ''detection''}"


definition vital_max :: "string \<Rightarrow> 'a vitals_system_scheme \<Rightarrow> real" where
  "vital_max vital v =
     (if vital = ''health'' then maxHealth v
      else if vital = ''stamina'' then maxStamina v
      else 100)"

section \<open>Modes (ui/modes.js)\<close>

datatype card_state = EXPANDED | STANDARD | MINIMIZED | COLLAPSED | POPUP

record mode_config =
  mode_name :: string
  description :: string
  availableCards :: "string list"
  primaryFocus :: string
  cardStates :: "(string \<times> card_state) list"
  allowedActions :: "string list"

definition EXPLORATION :: string where "EXPLORATION = ''exploration''"
definition DIALOGUE :: string where "DIALOGUE = ''dialogue''"
definition COMBAT :: string where "COMBAT = ''combat''"
definition STEALTH :: string where "STEALTH = ''stealth''"
definition CUTSCENE :: string where "CUTSCENE = ''cutscene''"
definition PUZZLE :: string where "PUZZLE = ''puzzle''"

lemmas GAME_PHASES =
  EXPLORATION_def DIALOGUE_def COMBAT_def STEALTH_def CUTSCENE_def PUZZLE_def

definition exploration_mode :: mode_config where
  "exploration_mode =
     \<lparr>mode_name = ''Exploration'', description = ''Free movement and investigation'',
      availableCards = [''action-palette'', ''inventory'', ''map'', ''vitals'', ''sloan'',
                        ''environment''],
      primaryFocus = ''environment-actions'',
      cardStates = [(''action-palette'', STANDARD), (''inventory'', MINIMIZED),
                    (''map'', MINIMIZED), (''vitals'', STANDARD), (''sloan'', STANDARD),
                    (''environment'', STANDARD), (''dialogue'', COLLAPSED),
                    (''combat'', COLLAPSED)],
      allowedActions = [''look'', ''examine'', ''listen'', ''search'', ''move'', ''sneak'',
                        ''run'', ''hide'', ''take'', ''use'', ''hack'', ''lockpick'', ''talk'',
                        ''distract'']\<rparr>"

definition dialogue_mode :: mode_config where
  "dialogue_mode =
     \<lparr>mode_name = ''Dialogue'', description = ''Conversation with NPCs'',
      availableCards = [''dialogue'', ''vitals'', ''sloan''],
      primaryFocus = ''dialogue'',
      cardStates = [(''action-palette'', COLLAPSED), (''inventory'', COLLAPSED),
                    (''map'', COLLAPSED), (''vitals'', MINIMIZED), (''sloan'', MINIMIZED),
                    (''environment'', COLLAPSED), (''dialogue'', EXPANDED),
                    (''combat'', COLLAPSED)],
      allowedActions = [''talk'', ''persuade'', ''intimidate'', ''distract'', ''flee'']\<rparr>"

definition combat_mode :: mode_config where
  "combat_mode =
     \<lparr>mode_name = ''Combat'', description = ''Active conflict'',
      availableCards = [''combat-actions'', ''vitals'', ''sloan''],
      primaryFocus = ''combat'',
      cardStates = [(''action-palette'', COLLAPSED), (''inventory'', MINIMIZED),
                    (''map'', COLLAPSED), (''vitals'', EXPANDED), (''sloan'', MINIMIZED),
                    (''environment'', COLLAPSED), (''dialogue'', COLLAPSED),
                    (''combat'', EXPANDED)],
      allowedActions = [''attack'', ''subdue'', ''flee'', ''hide'', ''use'']\<rparr>"

definition stealth_mode :: mode_config where
  "stealth_mode =
     \<lparr>mode_name = ''Stealth'', description = ''Evading detection'',
      availableCards = [''stealth-actions'', ''map-mini'', ''vitals'', ''sloan''],
      primaryFocus = ''detection-meter'',
      cardStates = [(''action-palette'', COLLAPSED), (''inventory'', COLLAPSED),
                    (''map'', STANDARD), (''vitals'', EXPANDED), (''sloan'', MINIMIZED),
                    (''environment'', MINIMIZED), (''dialogue'', COLLAPSED),
                    (''combat'', COLLAPSED)],
      allowedActions = [''sneak'', ''hide'', ''flee'', ''distract'', ''subdue'']\<rparr>"

definition puzzle_mode :: mode_config where
  "puzzle_mode =
     \<lparr>mode_name = ''Puzzle'', description = ''Solving challenges'',
      availableCards = [''puzzle-interface'', ''inventory'', ''sloan''],
      primaryFocus = ''puzzle-interface'',
      cardStates = [(''action-palette'', COLLAPSED), (''inventory'', STANDARD),
                    (''map'', COLLAPSED), (''vitals'', MINIMIZED), (''sloan'', STANDARD),
                    (''environment'', COLLAPSED), (''dialogue'', COLLAPSED),
                    (''combat'', COLLAPSED)],
      allowedActions = [''use'', ''combine'', ''examine'']\<rparr>"

definition cutscene_mode :: mode_config where
  "cutscene_mode =
     \<lparr>mode_name = ''Cutscene'', description = ''Narrative sequence'',
      availableCards = [],
      primaryFocus = ''narrative'',
      cardStates = [(''action-palette'', COLLAPSED), (''inventory'', COLLAPSED),
                    (''map'', COLLAPSED), (''vitals'', COLLAPSED), (''sloan'', COLLAPSED),
                    (''environment'', COLLAPSED), (''dialogue'', COLLAPSED),
                    (''combat'', COLLAPSED)],
      allowedActions = []\<rparr>"

text \<open>The own properties of the \<open>MODES\<close> object literal, in source order.\<close>

definition MODES :: "(string \<times> mode_config) list" where
  "MODES = [(EXPLORATION, exploration_mode), (DIALOGUE, dialogue_mode),
            (COMBAT, combat_mode), (STEALTH, stealth_mode), (PUZZLE, puzzle_mode),
            (CUTSCENE, cutscene_mode)]"

text \<open>
  The result of a property read on a plain object: one of its own properties, a member
  inherited from \<open>Object.prototype\<close> (a function, or the prototype itself for
  \<open>__proto__\<close>), or \<open>undefined\<close>. The first two are truthy, the last is falsy.
\<close>

datatype 'a js_property = Own 'a | Inherited | Absent

definition MODES_get :: "string \<Rightarrow> mode_config js_property" where
  "MODES_get key =
     (case map_of MODES key of
        Some m \<Rightarrow> Own m
      | None \<Rightarrow> if key \<in> set object_prototype_names then Inherited else Absent)"

definition truthy :: "'a js_property \<Rightarrow> bool" where
  "truthy p = (p \<noteq> Absent)"

text \<open>The recognized modes are the six keys of \<open>MODES\<close>.\<close>

definition recognized_mode :: "string \<Rightarrow> bool" where
  "recognized_mode m = (m \<in> set (map fst MODES))"

text \<open>
  What \<open>eventBus.emit('mode:changed', ...)\<close> carries: the outgoing and incoming mode
  and \<open>MODES[toMode].cardStates\<close>, which is \<open>undefined\<close> when \<open>MODES[toMode]\<close> is
  not one of the six descriptors.
\<close>

datatype mode_event = ModeChanged string string "(string \<times> card_state) list option"

record transition_options =
  pushToStack :: bool
  lockDuration :: "nat option"

definition no_options :: transition_options where
  "no_options = \<lparr>pushToStack = False, lockDuration = None\<rparr>"

text \<open>
  The manager. \<open>lockTimers\<close> holds the due times of the pending \<open>setTimeout\<close>
  callbacks that release the transition lock; \<open>mode_events\<close> is what has been emitted
  on the event bus. A timer callback is taken to run as soon as the clock has reached
  its due time.
\<close>

record mode_manager =
  currentMode :: string
  previousMode :: "string option"
  modeStack :: "string list"
  transitionLocked :: bool
  lockTimers :: "int list"
  mode_events :: "mode_event list"

definition new_ModeManager :: mode_manager where
  "new_ModeManager =
     \<lparr>currentMode = EXPLORATION, previousMode = None, modeStack = [],
      transitionLocked = False, lockTimers = [], mode_events = []\<rparr>"

definition getCurrentMode :: "mode_manager \<Rightarrow> mode_config js_property" where
  "getCurrentMode mm = MODES_get (currentMode mm)"



definition cardStates_of :: "mode_config js_property \<Rightarrow> (string \<times> card_state) list option" where
  "cardStates_of p = (case p of Own m \<Rightarrow> Some (cardStates m) | Inherited \<Rightarrow> None | Absent \<Rightarrow> None)"

text \<open>\<open>options.lockDuration || 300\<close>\<close>

definition lock_delay :: "transition_options \<Rightarrow> int" where
  "lock_delay opts =
     (case lockDuration opts of None \<Rightarrow> 300 | Some d \<Rightarrow> if d = 0 then 300 else int d)"

text \<open>\<open>transitionTo(newMode, options)\<close> called when the clock reads \<open>now\<close>.\<close>

definition transitionTo ::
  "int \<Rightarrow> string \<Rightarrow> transition_options \<Rightarrow> mode_manager \<Rightarrow> bool \<times> mode_manager" where
  "transitionTo now newMode opts mm =
     (if transitionLocked mm then (False, mm)
      else if \<not> truthy (MODES_get newMode) then (False, mm)
      else if currentMode mm = newMode then (False, mm)
      else
        let fromMode = currentMode mm;
            toMode = newMode
        in (True,
            mm\<lparr>modeStack := (if pushToStack opts then modeStack mm @ [fromMode]
                               else modeStack mm),
               previousMode := Some fromMode,
               currentMode := toMode,
               transitionLocked := True,
               lockTimers := lockTimers mm @ [now + lock_delay opts],
               mode_events := mode_events mm
                  @ [ModeChanged fromMode toMode (cardStates_of (MODES_get toMode))]\<rparr>))"

text \<open>The timer callbacks that are due at \<open>now\<close>: each one releases the lock.\<close>

definition run_lock_timers :: "int \<Rightarrow> mode_manager \<Rightarrow> mode_manager" where
  "run_lock_timers now mm =
     (if \<exists>d \<in> set (lockTimers mm). d \<le> now
      then mm\<lparr>transitionLocked := False,
              lockTimers := filter (\<lambda>d. now < d) (lockTimers mm)\<rparr>
      else mm)"

definition returnToPrevious :: "int \<Rightarrow> mode_manager \<Rightarrow> bool \<times> mode_manager" where
  "returnToPrevious now mm =
     (case previousMode mm of
        None \<Rightarrow> (False, mm)
      | Some p \<Rightarrow> if p = [] then (False, mm) else transitionTo now p no_options mm)"

definition popMode :: "int \<Rightarrow> mode_manager \<Rightarrow> bool \<times> mode_manager" where
  "popMode now mm =
     (if length (modeStack mm) > 0
      then transitionTo now (last (modeStack mm)) no_options
             (mm\<lparr>modeStack := butlast (modeStack mm)\<rparr>)
      else (False, mm))"

definition reset :: "int \<Rightarrow> mode_manager \<Rightarrow> mode_manager" where
  "reset now mm =
     snd (transitionTo now EXPLORATION no_options (mm\<lparr>modeStack := [], previousMode := None\<rparr>))"

section \<open>NPC vitals (pillars/vitals.js) and NPCs (entities/npc.js)\<close>

datatype awareness_level = UNAWARE | SUSPICIOUS | ALERT | HOSTILE | ALLIED | NEUTRAL

text \<open>
  \<open>VitalsSystem.tick()\<close>: bleeding while injured, the countdown of timed effects,
  stress decay while detection is below the suspicious threshold, stamina recovery.
\<close>

definition vitals_tick :: "'a vitals_system_scheme \<Rightarrow> 'a vitals_system_scheme" where
  "vitals_tick v =
     (let v1 = (if ''injured'' \<in> conditions v
                then modifyVital_update ''health'' (- bleedRate) v else v);
          v2 = v1\<lparr>effects :=
                 filter (\<lambda>(k, remaining). \<not> remaining \<le> 0)
                   (map (\<lambda>(k, remaining). (k, remaining - 1)) (effects v1))\<rparr>;
          v3 = (if detection v2 < DETECTION_SUSPICIOUS
                then modifyVital_update ''stress'' (- 1) v2 else v2)
      in modifyVital_update ''stamina'' (1 / 2) v3)"

text \<open>
  \<open>NPCVitals\<close> extends \<open>VitalsSystem\<close>. Its own \<open>awareness\<close> field is written
  \<open>vitals_awareness\<close> here, to keep it apart from the \<open>awareness\<close> of the NPC that
  owns the vitals.
\<close>

record npc_vitals = vitals_system +
  vitals_awareness :: awareness_level
  suspicion :: real
  alertCooldown :: real

definition new_NPCVitals :: npc_vitals where
  "new_NPCVitals =
     \<lparr>health = 100, maxHealth = 100, stamina = 100, maxStamina = 100,
      stress = 0, detection = 0, conditions = {}, effects = [],
      vitals_awareness = UNAWARE, suspicion = 0, alertCooldown = 0\<rparr>"

definition addSuspicion :: "real \<Rightarrow> npc_vitals \<Rightarrow> npc_vitals" where
  "addSuspicion amount v =
     (let s = min 100 (suspicion v + amount);
          a1 = (if s > 30 \<and> vitals_awareness v = UNAWARE then SUSPICIOUS
                else vitals_awareness v);
          a2 = (if s > 70 \<and> a1 = SUSPICIOUS then ALERT else a1);
          a3 = (if s \<ge> 100 then HOSTILE else a2)
      in v\<lparr>suspicion := s, vitals_awareness := a3\<rparr>)"

definition decaySuspicion :: "real \<Rightarrow> npc_vitals \<Rightarrow> npc_vitals" where
  "decaySuspicion amount v =
     (if alertCooldown v > 0 then v\<lparr>alertCooldown := alertCooldown v - 1\<rparr>
      else
        let s = max 0 (suspicion v - amount)
        in v\<lparr>suspicion := s,
              vitals_awareness :=
                (if s < 30 \<and> vitals_awareness v = SUSPICIOUS then UNAWARE
                 else vitals_awareness v)\<rparr>)"

definition canAct :: "npc_vitals \<Rightarrow> bool" where
  "canAct v = (health v > 0 \<and> ''unconscious'' \<notin> conditions v)"

text \<open>
  An NPC, with the fields that awareness, engagement and the priority list read or
  write. Position, facing, patrol path and the idle timers are left out: the four
  behaviour routines (\<open>executePatrol\<close>, \<open>executeWork\<close>, \<open>executeWander\<close>,
  \<open>executeGuard\<close>) write only those, so on this record they change nothing.
  \<open>alreadySpotted\<close> and \<open>engagementHandled\<close> are the flags \<open>_alreadySpotted\<close> and
  \<open>_engagementHandled\<close> that the main loop attaches to the object.
\<close>

record npc =
  npc_id :: string
  npc_type :: string
  npc_name :: string
  vitals :: npc_vitals
  location :: string
  behavior :: string
  awareness :: awareness_level
  engaged :: bool
  capabilities :: "string set"
  inventory :: "string list"
  dialogueId :: "string option"
  actionCooldown :: real
  alreadySpotted :: bool
  engagementHandled :: bool

text \<open>\<open>new NPC(config)\<close> for a config that gives the id, the location and the awareness.\<close>

definition new_NPC :: "string \<Rightarrow> string \<Rightarrow> awareness_level \<Rightarrow> npc" where
  "new_NPC i loc a =
     \<lparr>npc_id = i, npc_type = ''generic'', npc_name = ''Unknown'', vitals = new_NPCVitals,
      location = loc, behavior = ''stationary'', awareness = a, engaged = False,
      capabilities = {}, inventory = [], dialogueId = None, actionCooldown = 0,
      alreadySpotted = False, engagementHandled = False\<rparr>"

definition updateAwareness :: "npc \<Rightarrow> npc" where
  "updateAwareness n =
     (let s = suspicion (vitals n)
      in if s \<ge> 100 then n\<lparr>awareness := HOSTILE\<rparr>
         else if s \<ge> 70 then n\<lparr>awareness := ALERT\<rparr>
         else if s \<ge> 30 then n\<lparr>awareness := SUSPICIOUS\<rparr>
         else if s < 10 \<and> awareness n = SUSPICIOUS then n\<lparr>awareness := UNAWARE\<rparr>
         else n)"

text \<open>\<open>NPC.tick(gameState)\<close>\<close>

definition tick :: "npc \<Rightarrow> npc" where
  "tick n =
     (if \<not> canAct (vitals n) then n
      else
        let n1 = (if \<not> engaged n \<and> awareness n \<noteq> HOSTILE
                  then n\<lparr>vitals := decaySuspicion 1 (vitals n)\<rparr> else n);
            n2 = updateAwareness n1;
            n3 = (if actionCooldown n2 > 0
                  then n2\<lparr>actionCooldown := actionCooldown n2 - 1\<rparr> else n2)
        in n3\<lparr>vitals := vitals_tick (vitals n3)\<rparr>)"

definition takeDamage :: "real \<Rightarrow> npc \<Rightarrow> npc" where
  "takeDamage amount n =
     (let v = modifyVital_update ''health'' (- amount) (vitals n)
      in if health v \<le> 0
         then n\<lparr>vitals := v\<lparr>conditions := insert ''unconscious'' (conditions v)\<rparr>,
                 engaged := False\<rparr>
         else n\<lparr>vitals := v\<rparr>)"

text \<open>\<open>subdue()\<close> returns the dropped inventory.\<close>

definition subdue :: "npc \<Rightarrow> string list \<times> npc" where
  "subdue n =
     (inventory n,
      n\<lparr>vitals := (vitals n)\<lparr>conditions := insert ''unconscious'' (conditions (vitals n))\<rparr>,
        engaged := False, awareness := UNAWARE\<rparr>)"

text \<open>
  A stationary guard that has been alerted: awareness alert, suspicion at the alert
  threshold, not engaged, otherwise as constructed. \<open>decayed_guard k\<close> is the same
  guard as \<open>k\<close> ticks leave it.
\<close>

definition alert_guard :: npc where
  "alert_guard = (new_NPC ''guard-1'' ''lobby'' ALERT)\<lparr>vitals := new_NPCVitals\<lparr>suspicion := 70\<rparr>\<rparr>"

definition decayed_guard :: "nat \<Rightarrow> npc" where
  "decayed_guard k =
     alert_guard\<lparr>vitals := new_NPCVitals\<lparr>suspicion := 70 - real k\<rparr>,
                 awareness := (if k = 0 then ALERT
                               else if 70 - real k < 10 then UNAWARE else SUSPICIOUS)\<rparr>"

section \<open>Game state (core/state.js)\<close>

text \<open>\<open>GameState.player.vitals\<close> is a plain object with exactly these four keys.\<close>

record player_vitals =
  pv_health :: real
  pv_stamina :: real
  pv_stress :: real
  pv_detection :: real

record player =
  player_vitals :: player_vitals
  player_conditions :: "string list"
  equipment :: "string list"

record sloan_state =
  connectionQuality :: real

record objective =
  objective_id :: string
  objective_type :: string
  objective_location :: string
  optional :: bool
  completed :: bool

text \<open>
  \<open>npcs\<close> is the \<open>Map\<close> from id to NPC, as the list of its values in insertion
  order; \<open>flags\<close> is the \<open>Map\<close> of story flags. \<open>objectives\<close> is \<open>None\<close> when the
  mission data gave no objective list.
\<close>

record game_state =
  currentEnvironment :: "string option"
  npcs :: "npc list"
  player :: player
  sloan :: sloan_state
  objectives :: "objective list option"
  flags :: "string \<rightharpoonup> bool"

definition new_GameState :: game_state where
  "new_GameState =
     \<lparr>currentEnvironment = None, npcs = [],
      player = \<lparr>player_vitals = \<lparr>pv_health = 100, pv_stamina = 100, pv_stress = 0,
                                  pv_detection = 0\<rparr>,
                player_conditions = [], equipment = []\<rparr>,
      sloan = \<lparr>connectionQuality = 100\<rparr>,
      objectives = Some [], flags = Map.empty\<rparr>"

definition setFlag :: "string \<Rightarrow> bool \<Rightarrow> game_state \<Rightarrow> game_state" where
  "setFlag key v st = st\<lparr>flags := (flags st)(key \<mapsto> v)\<rparr>"

definition hasFlag :: "string \<Rightarrow> game_state \<Rightarrow> bool" where
  "hasFlag key st = (flags st key = Some True)"



section \<open>The game application (main.js)\<close>

record element =
  element_id :: string
  element_name :: string
  interactive :: bool
  isObjective :: bool
  defaultAction :: string
  requiresKeycard :: bool
  element_keycardLevel :: "nat option"

record exit =
  destination :: string
  exit_label :: string
  locked :: bool
  keycardLevel :: "nat option"

text \<open>
  A room. \<open>exits\<close> and \<open>elements\<close> are read as \<open>(x || [])\<close> or through \<open>?.\<close>
  everywhere, so a missing array is the empty list; \<open>lighting\<close> and \<open>noise\<close> are the
  two attributes the detection check reads.
\<close>

record environment =
  environment_id :: string
  exits :: "exit list"
  elements :: "element list"
  lighting :: "string option"
  noise :: "string option"

definition DETECTION_GRACE_PERIOD :: int where "DETECTION_GRACE_PERIOD = 3000"
definition DETECTION_CHECK_INTERVAL :: int where "DETECTION_CHECK_INTERVAL = 1500"
definition DETECTION_BASE_CHANCE :: real where "DETECTION_BASE_CHANCE = 8"
definition DETECTION_INCREMENT :: real where "DETECTION_INCREMENT = 5"

text \<open>
  What the application does to its collaborators: lines Sloan is made to speak, events
  put on the event bus (name and the id they concern), rooms marked on the map, the
  animation frame cancelled by \<open>stop()\<close>, and the text put on the error overlay (the
  victory screen reuses it, with the bonus-objective count and the ghost rating).
  Console output is not recorded.
\<close>

datatype effect =
    Speech string
  | Emit string string
  | MarkVisited string
  | CancelAnimationFrame nat
  | ShowError string
  | ShowVictory nat bool

text \<open>
  The application object. \<open>graceTimers\<close> holds the due times of the pending
  \<open>setTimeout\<close> callbacks that switch detection on; \<open>trace\<close> is the list of effects so
  far. Times are milliseconds as \<open>Date.now()\<close> reports them.
\<close>

record game =
  state :: game_state
  environments :: "string \<rightharpoonup> environment"
  modeManager :: mode_manager
  detectionEnabled :: bool
  roomEntryTime :: int
  lastDetectionCheck :: int
  animationId :: "nat option"
  graceTimers :: "int list"
  trace :: "effect list"

definition new_GlassShadow :: game where
  "new_GlassShadow =
     \<lparr>state = new_GameState, environments = Map.empty, modeManager = new_ModeManager,
      detectionEnabled = False, roomEntryTime = 0, lastDetectionCheck = 0,
      animationId = None, graceTimers = [], trace = []\<rparr>"

definition effect :: "effect \<Rightarrow> game \<Rightarrow> game" where
  "effect e g = g\<lparr>trace := trace g @ [e]\<rparr>"

definition forceSpeech :: "string \<Rightarrow> game \<Rightarrow> game" where
  "forceSpeech message g = effect (Speech message) g"

text \<open>\<open>stop()\<close>: cancel the pending frame, if there is one.\<close>

definition stop :: "game \<Rightarrow> game" where
  "stop g =
     (case animationId g of
        None \<Rightarrow> g
      | Some i \<Rightarrow> if i = 0 then g
                  else (effect (CancelAnimationFrame i) g)\<lparr>animationId := None\<rparr>)"

definition showError :: "string \<Rightarrow> game \<Rightarrow> game" where
  "showError message g = effect (ShowError message) g"

definition handleGameOver :: "string \<Rightarrow> game \<Rightarrow> game" where
  "handleGameOver reason g =
     (if hasFlag ''game_over'' (state g) then g
      else
        let g1 = g\<lparr>state := setFlag ''game_over'' True (state g)\<rparr>;
            g2 = forceSpeech ''We've lost contact. Mission failed.'' g1;
            g3 = stop g2
        in showError (''MISSION FAILED'' @ [CHR 0x0A, CHR 0x0A] @ reason) g3)"




text \<open>Replace the NPC stored under an id by its image under \<open>f\<close>.\<close>

definition map_npc :: "string \<Rightarrow> (npc \<Rightarrow> npc) \<Rightarrow> game \<Rightarrow> game" where
  "map_npc i f g =
     g\<lparr>state := (state g)\<lparr>npcs := map (\<lambda>n. if npc_id n = i then f n else n) (npcs (state g))\<rparr>\<rparr>"

definition get_npc :: "string \<Rightarrow> game \<Rightarrow> npc option" where
  "get_npc i g = find (\<lambda>n. npc_id n = i) (npcs (state g))"

text \<open>\<open>enterRoom(roomId)\<close> called when the clock reads \<open>now\<close>.\<close>

definition enterRoom :: "int \<Rightarrow> string \<Rightarrow> game \<Rightarrow> game" where
  "enterRoom now roomId g =
     (case environments g roomId of
        None \<Rightarrow> g
      | Some env \<Rightarrow>
          let g1 = g\<lparr>state := (state g)\<lparr>currentEnvironment := Some roomId\<rparr>\<rparr>;
              g2 = effect (MarkVisited roomId) g1;
              g3 = g2\<lparr>detectionEnabled := False, roomEntryTime := now\<rparr>;
              g4 = g3\<lparr>state := (state g3)\<lparr>npcs :=
                      map (\<lambda>n. if location n = roomId
                                then n\<lparr>alreadySpotted := False, engagementHandled := False\<rparr>
                                else n)
                          (npcs (state g3))\<rparr>\<rparr>;
              g5 = g4\<lparr>graceTimers := graceTimers g4 @ [now + DETECTION_GRACE_PERIOD]\<rparr>;
              g6 = effect (Emit ''room:entered'' roomId) (effect (Emit ''room:entered'' roomId) g5)
          in if \<exists>el \<in> set (elements env). isObjective el
             then effect (Emit ''objective:near'' ''default'') g6
             else g6)"

text \<open>
  The timer callbacks of \<open>enterRoom\<close> that are due at \<open>now\<close>: each one sets
  \<open>detectionEnabled\<close>, whichever room entry scheduled it.
\<close>

definition run_grace_timers :: "int \<Rightarrow> game \<Rightarrow> game" where
  "run_grace_timers now g =
     (if \<exists>d \<in> set (graceTimers g). d \<le> now
      then g\<lparr>detectionEnabled := True, graceTimers := filter (\<lambda>d. now < d) (graceTimers g)\<rparr>
      else g)"

definition startDialogue :: "string \<Rightarrow> game \<Rightarrow> game" where
  "startDialogue npcId g =
     (case get_npc npcId g of
        None \<Rightarrow> g
      | Some n \<Rightarrow> effect (Emit ''dialogue:start'' npcId) g)"

definition push_options :: transition_options where
  "push_options = \<lparr>pushToStack = True, lockDuration = None\<rparr>"

definition handleNPCEngagement :: "int \<Rightarrow> npc \<Rightarrow> game \<Rightarrow> game" where
  "handleNPCEngagement now n g =
     (if awareness n = HOSTILE then
        let g1 = g\<lparr>modeManager := snd (transitionTo now ''combat'' push_options (modeManager g))\<rparr>;
            g2 = effect (Emit ''danger:detected'' (npc_id n)) g1
        in forceSpeech ''Contact! You've been made!'' g2
      else if (case dialogueId n of None \<Rightarrow> False | Some d \<Rightarrow> d \<noteq> []) \<or> npc_type n = ''guard'' then
        let g1 = g\<lparr>modeManager := snd (transitionTo now ''dialogue'' push_options (modeManager g))\<rparr>
        in startDialogue (npc_id n) g1
      else g)"

text \<open>The detection chance of one NPC, in percent.\<close>

definition detectChance :: "environment \<Rightarrow> game_state \<Rightarrow> npc \<Rightarrow> real" where
  "detectChance env st n =
     (let envNoise = (case noise env of None \<Rightarrow> ''normal''
                      | Some s \<Rightarrow> if s = [] then ''normal'' else s)
      in DETECTION_BASE_CHANCE
         + (if awareness n = ALERT then 10 else 0)
         + (if awareness n = HOSTILE then 20 else 0)
         + (if lighting env = Some ''bright'' then 5 else 0)
         - (if lighting env = Some ''dim'' then 5 else 0)
         - (if ''hidden'' \<in> set (player_conditions (player st)) then 15 else 0)
         + (if pv_stress (player_vitals (player st)) > 50 then 5 else 0)
         - (if envNoise = ''loud'' then 5 else 0)
         + (if envNoise = ''silent'' then 10 else 0))"

definition set_detection :: "real \<Rightarrow> game \<Rightarrow> game" where
  "set_detection d g =
     g\<lparr>state := (state g)\<lparr>player := (player (state g))\<lparr>player_vitals :=
          (player_vitals (player (state g)))\<lparr>pv_detection := d\<rparr>\<rparr>\<rparr>\<rparr>"

text \<open>
  The loop of \<open>checkNPCDetection\<close> over the NPCs, by id. \<open>rnd i\<close> is the value
  \<open>Math.random()\<close> returns when the NPC \<open>i\<close> is rolled for. NPC objects carry no
  \<open>state\<close> property, so the test for \<open>npc.state === 'unconscious'\<close> or \<open>'subdued'\<close>
  never holds and is left out. Reaching detection 100 ends the loop.
\<close>

fun detect_loop ::
  "(string \<Rightarrow> real) \<Rightarrow> int \<Rightarrow> environment \<Rightarrow> string list \<Rightarrow> game \<Rightarrow> game" where
  "detect_loop rnd now env [] g = g"
| "detect_loop rnd now env (i # ids) g =
     (case get_npc i g of
        None \<Rightarrow> detect_loop rnd now env ids g
      | Some n \<Rightarrow>
          if Some (location n) \<noteq> currentEnvironment (state g) then detect_loop rnd now env ids g
          else if engaged n then detect_loop rnd now env ids g
          else if rnd i * 100 < detectChance env (state g) n then
            let currentDetection = pv_detection (player_vitals (player (state g)));
                newDetection = min 100 (currentDetection + DETECTION_INCREMENT);
                g1 = set_detection newDetection g;
                g2 = effect (Emit ''detection:increased'' i) g1
            in if newDetection \<ge> 100 then handleGameOver ''You were caught by security.'' g2
               else if newDetection \<ge> 80 \<and> \<not> engagementHandled n then
                 let n' = n\<lparr>engaged := True, engagementHandled := True\<rparr>;
                     g3 = map_npc i (\<lambda>_. n') g2
                 in detect_loop rnd now env ids (handleNPCEngagement now n' g3)
               else if newDetection \<ge> 50 \<and> awareness n \<noteq> SUSPICIOUS then
                 let g3 = map_npc i (\<lambda>m. m\<lparr>awareness := SUSPICIOUS\<rparr>) g2;
                     g4 = (if \<not> alreadySpotted n
                           then map_npc i (\<lambda>m. m\<lparr>alreadySpotted := True\<rparr>)
                                  (forceSpeech ''They're getting suspicious. Be careful.''
                                     (effect (Emit ''npc:spotted'' i) g3))
                           else g3)
                 in detect_loop rnd now env ids g4
               else if newDetection \<ge> 30 \<and> \<not> alreadySpotted n then
                 let g3 = map_npc i (\<lambda>m. m\<lparr>awareness := ALERT\<rparr>) g2;
                     g4 = forceSpeech ''Watch it. Someone's looking around.'' g3;
                     g5 = map_npc i (\<lambda>m. m\<lparr>alreadySpotted := True\<rparr>) g4
                 in detect_loop rnd now env ids g5
               else detect_loop rnd now env ids g2
          else detect_loop rnd now env ids g)"

definition checkNPCDetection :: "(string \<Rightarrow> real) \<Rightarrow> int \<Rightarrow> game \<Rightarrow> game" where
  "checkNPCDetection rnd now g =
     (case currentEnvironment (state g) of
        None \<Rightarrow> g
      | Some r \<Rightarrow>
          (case environments g r of
             None \<Rightarrow> g
           | Some env \<Rightarrow> detect_loop rnd now env (map npc_id (npcs (state g))) g))"

text \<open>
  The value of \<open>this.modeManager?.getCurrentMode?.() || 'exploration'\<close>:
  \<open>getCurrentMode()\<close> returns the descriptor object \<open>MODES[this.currentMode]\<close>, and
  the string is the fallback for a falsy result. \<open>Array.prototype.includes\<close>
  compares by identity, so a list of strings includes this value only when it is a string.
\<close>

datatype mode_value = ModeObject "mode_config js_property" | ModeString string

definition current_mode_value :: "game \<Rightarrow> mode_value" where
  "current_mode_value g =
     (let m = getCurrentMode (modeManager g)
      in if truthy m then ModeObject m else ModeString ''exploration'')"

definition includes_value :: "string list \<Rightarrow> mode_value \<Rightarrow> bool" where
  "includes_value xs v = (case v of ModeString s \<Rightarrow> s \<in> set xs | ModeObject m \<Rightarrow> False)"

definition canCheckDetection :: "int \<Rightarrow> game \<Rightarrow> bool" where
  "canCheckDetection now g =
     (detectionEnabled g
      \<and> now - lastDetectionCheck g > DETECTION_CHECK_INTERVAL
      \<and> \<not> includes_value [''combat'', ''dialogue''] (current_mode_value g))"

text \<open>
  The detection block that opens \<open>update(deltaTime)\<close>, run when the clock reads
  \<open>now\<close>. The rest of \<open>update\<close> (NPC ticks, advisors, win and lose check, display,
  priorities) adds nothing to the player's detection.
\<close>

definition update_detection :: "(string \<Rightarrow> real) \<Rightarrow> int \<Rightarrow> game \<Rightarrow> game" where
  "update_detection rnd now g =
     (if canCheckDetection now g
      then checkNPCDetection rnd now (g\<lparr>lastDetectionCheck := now\<rparr>)
      else g)"

text \<open>A frame at time \<open>now\<close>: the timer callbacks that are due, then the detection block.\<close>

definition frame :: "(string \<Rightarrow> real) \<Rightarrow> int \<Rightarrow> game \<Rightarrow> game" where
  "frame rnd now g = update_detection rnd now (run_grace_timers now g)"

subsection \<open>Action execution\<close>

record action =
  verb :: string
  target :: string







subsection \<open>Scenes\<close>

text \<open>Two plain rooms, and a random source under which every roll succeeds.\<close>

definition lobby_room :: environment where
  "lobby_room = \<lparr>environment_id = ''lobby'', exits = [], elements = [], lighting = None, noise = None\<rparr>"

definition hall_room :: environment where
  "hall_room = \<lparr>environment_id = ''hall'', exits = [], elements = [], lighting = None, noise = None\<rparr>"

definition always_spots :: "string \<Rightarrow> real" where
  "always_spots i = 0"

text \<open>
  A fight in the lobby: one hostile guard engaged with the player, a second guard in the
  room who has not noticed anything, the mode manager switched to combat, the grace
  period over.
\<close>

definition combat_scene :: game where
  "combat_scene =
     new_GlassShadow\<lparr>
       state := new_GameState\<lparr>currentEnvironment := Some ''lobby'',
                  npcs := [(new_NPC ''guard-1'' ''lobby'' HOSTILE)\<lparr>engaged := True\<rparr>,
                           new_NPC ''guard-2'' ''lobby'' UNAWARE]\<rparr>,
       environments := [''lobby'' \<mapsto> lobby_room],
       modeManager := snd (transitionTo 0 ''combat'' push_options new_ModeManager),
       detectionEnabled := True\<rparr>"

text \<open>
  Two rooms with a guard in the hall. In \<open>quick_crossing\<close> the player enters the lobby
  at time 0 and walks on into the hall at time 2000.
\<close>

definition two_rooms :: game where
  "two_rooms =
     new_GlassShadow\<lparr>
       state := new_GameState\<lparr>npcs := [new_NPC ''guard-2'' ''hall'' UNAWARE]\<rparr>,
       environments := [''lobby'' \<mapsto> lobby_room, ''hall'' \<mapsto> hall_room]\<rparr>"

definition quick_crossing :: game where
  "quick_crossing = enterRoom 2000 ''hall'' (run_grace_timers 2000 (enterRoom 0 ''lobby'' two_rooms))"


section \<open>Priorities (ui/priorities.js)\<close>

definition TIER_IMMEDIATE :: nat where "TIER_IMMEDIATE = 1"
definition TIER_ENVIRONMENTAL :: nat where "TIER_ENVIRONMENTAL = 2"
definition TIER_SELF :: nat where "TIER_SELF = 3"
definition TIER_MODIFIER :: nat where "TIER_MODIFIER = 0"

lemmas PRIORITY_TIERS = TIER_IMMEDIATE_def TIER_ENVIRONMENTAL_def TIER_SELF_def TIER_MODIFIER_def

text \<open>The three tints the overlay can take; the orange one carries its opacity.\<close>

datatype tint = RedTint | OrangeTint real | AdrenalineTint

record ui_modifiers =
  shake :: real
  blur :: real
  darken :: real
  pulse :: real
  vignette :: real
  tint :: "tint option"
  hasEffects :: bool

datatype critical =
    HealthCritical real | StressCritical real | DetectionCritical real | ConditionCritical string

text \<open>
  What an item carries in \<open>data\<close>. NPCs, elements and objectives are carried by id and
  room actions as verb, target and kind; the fields that only serve the display (names,
  positions, labels, block reasons) are left out.
\<close>

datatype payload =
    Overlay ui_modifiers
  | Combatants "string list"
  | EngagedNPCs "string list"
  | Criticals "critical list"
  | NearbyNPCs "string list"
  | ObjectiveInRoom "string list"
  | ReachObjective "string list"
  | EnvActions "(string \<times> string \<times> string) list"
  | Elements "string list"
  | Equipment "string list"
  | Vitals player_vitals

record priority =
  ptype :: string
  tier :: nat
  weight :: int
  data :: payload

record priority_manager =
  priorityCache :: "priority list option"
  lastEvaluation :: int
  cacheLifetime :: int

definition new_PriorityManager :: priority_manager where
  "new_PriorityManager = \<lparr>priorityCache = None, lastEvaluation = 0, cacheLifetime = 100\<rparr>"

definition unconscious :: "npc \<Rightarrow> bool" where
  "unconscious n = (''unconscious'' \<in> conditions (vitals n))"

definition getEngagedNPCs :: "game_state \<Rightarrow> npc list \<Rightarrow> string list" where
  "getEngagedNPCs st ns =
     map npc_id
       (filter (\<lambda>n. Some (location n) = currentEnvironment st \<and> engaged n
                     \<and> awareness n \<noteq> UNAWARE \<and> \<not> unconscious n) ns)"

definition getNearbyNPCs :: "game_state \<Rightarrow> npc list \<Rightarrow> string list" where
  "getNearbyNPCs st ns =
     map npc_id
       (filter (\<lambda>n. Some (location n) = currentEnvironment st \<and> \<not> engaged n
                     \<and> \<not> unconscious n) ns)"

definition getCombatants :: "game_state \<Rightarrow> npc list \<Rightarrow> string list" where
  "getCombatants st ns =
     map npc_id
       (filter (\<lambda>n. Some (location n) = currentEnvironment st \<and> awareness n = HOSTILE
                     \<and> engaged n \<and> \<not> unconscious n) ns)"

definition getCriticalConditions :: "game_state \<Rightarrow> critical list" where
  "getCriticalConditions st =
     (let pv = player_vitals (player st)
      in (if pv_health pv \<le> HEALTH_CRITICAL then [HealthCritical (pv_health pv)] else [])
         @ (if pv_stress pv \<ge> STRESS_CRITICAL then [StressCritical (pv_stress pv)] else [])
         @ (if pv_detection pv \<ge> DETECTION_SPOTTED then [DetectionCritical (pv_detection pv)]
            else [])
         @ map ConditionCritical
             (filter (\<lambda>c. c \<in> set [''critical'', ''panicked'', ''bleeding''])
                (player_conditions (player st))))"

definition getEnvironmentActions ::
  "game_state \<Rightarrow> environment option \<Rightarrow> (string \<times> string \<times> string) list" where
  "getEnvironmentActions st environment =
     (case environment of
        None \<Rightarrow> []
      | Some env \<Rightarrow>
          map (\<lambda>e. (''move'', destination e, ''movement'')) (exits env)
          @ map (\<lambda>el. (defaultAction el, element_id el, ''interaction''))
              (filter interactive (elements env))
          @ [(''look'', ''room'', ''observation''), (''listen'', ''room'', ''observation'')])"

definition getInteractiveElements :: "environment option \<Rightarrow> string list" where
  "getInteractiveElements environment =
     (case environment of
        None \<Rightarrow> []
      | Some env \<Rightarrow> map element_id (filter interactive (elements env)))"

definition checkObjectiveProximity :: "game_state \<Rightarrow> environment option \<Rightarrow> payload option" where
  "checkObjectiveProximity st environment =
     (case environment of
        None \<Rightarrow> None
      | Some env \<Rightarrow>
          (case objectives st of
             None \<Rightarrow> None
           | Some obs \<Rightarrow>
               let objectiveElements = filter isObjective (elements env)
               in if length objectiveElements > 0
                  then Some (ObjectiveInRoom (map element_id objectiveElements))
                  else
                    let reachObjectives =
                          filter (\<lambda>ob. objective_type ob = ''reach''
                                        \<and> objective_location ob = environment_id env
                                        \<and> \<not> completed ob) obs
                    in if length reachObjectives > 0
                       then Some (ReachObjective (map objective_id reachObjectives))
                       else None))"

text \<open>One turn of the loop over the player's conditions in \<open>getUIModifiers\<close>.\<close>

definition condition_modifier :: "string \<Rightarrow> ui_modifiers \<Rightarrow> ui_modifiers" where
  "condition_modifier c m =
     (if c = ''panicked''
        then m\<lparr>shake := max (shake m) (6 / 10), blur := max (blur m) (2 / 10), hasEffects := True\<rparr>
      else if c = ''hidden''
        then m\<lparr>darken := 2 / 10, hasEffects := True\<rparr>
      else if c = ''adrenaline''
        then m\<lparr>pulse := max (pulse m) (7 / 10), tint := Some AdrenalineTint, hasEffects := True\<rparr>
      else if c = ''exhausted''
        then m\<lparr>blur := max (blur m) (1 / 10), darken := max (darken m) (15 / 100),
               hasEffects := True\<rparr>
      else m)"

definition getUIModifiers :: "game_state \<Rightarrow> ui_modifiers" where
  "getUIModifiers st =
     (let pv = player_vitals (player st);
          m0 = \<lparr>shake = 0, blur = 0, darken = 0, pulse = 0, vignette = 0, tint = None,
                hasEffects = False\<rparr>;
          m1 = (if pv_stress pv > STRESS_HIGH
                then m0\<lparr>shake := min 1 ((pv_stress pv - STRESS_HIGH) / 30),
                        pulse := min 1 ((pv_stress pv - STRESS_HIGH) / 30) * (5 / 10),
                        hasEffects := True\<rparr>
                else m0);
          m2 = (if pv_stress pv \<ge> STRESS_CRITICAL
                then m1\<lparr>blur := 3 / 10, hasEffects := True\<rparr> else m1);
          m3 = (if pv_health pv < HEALTH_WOUNDED
                then m2\<lparr>vignette := min 1 ((HEALTH_WOUNDED - pv_health pv) / 30),
                        hasEffects := True\<rparr>
                else m2);
          m4 = (if pv_health pv \<le> HEALTH_CRITICAL
                then m3\<lparr>tint := Some RedTint, pulse := max (pulse m3) (8 / 10),
                        hasEffects := True\<rparr>
                else m3);
          m5 = (if pv_detection pv > DETECTION_SUSPICIOUS
                then m4\<lparr>tint := Some (OrangeTint ((pv_detection pv - DETECTION_SUSPICIOUS) / 200)),
                        hasEffects := True\<rparr>
                else m4)
      in fold condition_modifier (player_conditions (player st)) m5)"

text \<open>
  The items of one evaluation in the order \<open>evaluate\<close> pushes them, before sorting.
\<close>

definition gather ::
  "game_state \<Rightarrow> (string \<rightharpoonup> environment) \<Rightarrow> npc list \<Rightarrow> priority list" where
  "gather st envs ns =
     (let currentEnv = (case currentEnvironment st of None \<Rightarrow> None | Some r \<Rightarrow> envs r);
          uiModifiers = getUIModifiers st;
          combatants = getCombatants st ns;
          engagedNPCs = getEngagedNPCs st ns;
          criticalConditions = getCriticalConditions st;
          nearbyNPCs = getNearbyNPCs st ns;
          objectiveProximity = checkObjectiveProximity st currentEnv;
          envActions = getEnvironmentActions st currentEnv;
          interactiveElements = getInteractiveElements currentEnv
      in (if hasEffects uiModifiers
          then [\<lparr>ptype = ''condition-overlay'', tier = TIER_MODIFIER, weight = 90,
                 data = Overlay uiModifiers\<rparr>] else [])
         @ (if length combatants > 0
            then [\<lparr>ptype = ''combat'', tier = TIER_IMMEDIATE, weight = 100,
                   data = Combatants combatants\<rparr>] else [])
         @ (if length engagedNPCs > 0 \<and> length combatants = 0
            then [\<lparr>ptype = ''npc-interaction'', tier = TIER_IMMEDIATE, weight = 95,
                   data = EngagedNPCs engagedNPCs\<rparr>] else [])
         @ (if length criticalConditions > 0
            then [\<lparr>ptype = ''critical-status'', tier = TIER_IMMEDIATE, weight = 85,
                   data = Criticals criticalConditions\<rparr>] else [])
         @ (if length nearbyNPCs > 0 \<and> length engagedNPCs = 0
            then [\<lparr>ptype = ''npc-nearby'', tier = TIER_ENVIRONMENTAL, weight = 60,
                   data = NearbyNPCs nearbyNPCs\<rparr>] else [])
         @ (case objectiveProximity of
              Some d \<Rightarrow> [\<lparr>ptype = ''objective-near'', tier = TIER_ENVIRONMENTAL, weight = 70,
                          data = d\<rparr>]
            | None \<Rightarrow> [])
         @ (if length envActions > 0
            then [\<lparr>ptype = ''environment-actions'', tier = TIER_ENVIRONMENTAL, weight = 50,
                   data = EnvActions envActions\<rparr>] else [])
         @ (if length interactiveElements > 0
            then [\<lparr>ptype = ''interactive-elements'', tier = TIER_ENVIRONMENTAL, weight = 45,
                   data = Elements interactiveElements\<rparr>] else [])
         @ [\<lparr>ptype = ''inventory'', tier = TIER_SELF, weight = 20,
              data = Equipment (equipment (player st))\<rparr>,
            \<lparr>ptype = ''vitals'', tier = TIER_SELF, weight = 15,
              data = Vitals (player_vitals (player st))\<rparr>])"

text \<open>
  \<open>priorities.sort((a, b) => b.weight - a.weight)\<close>: the array sort is stable, and the
  comparator orders by weight, highest first.
\<close>

definition sort_priorities :: "priority list \<Rightarrow> priority list" where
  "sort_priorities ps = sort_key (\<lambda>p. - weight p) ps"

text \<open>The cache is used when there is one and it is younger than its lifetime.\<close>

definition cache_hit :: "priority_manager \<Rightarrow> int \<Rightarrow> bool" where
  "cache_hit pm now = (priorityCache pm \<noteq> None \<and> now - lastEvaluation pm < cacheLifetime pm)"

text \<open>\<open>evaluate(state, environments, npcs)\<close> called when the clock reads \<open>now\<close>.\<close>

definition evaluate ::
  "priority_manager \<Rightarrow> int \<Rightarrow> game_state \<Rightarrow> (string \<rightharpoonup> environment) \<Rightarrow> npc list
   \<Rightarrow> priority list \<times> priority_manager" where
  "evaluate pm now st envs ns =
     (case priorityCache pm of
        Some cached \<Rightarrow>
          if now - lastEvaluation pm < cacheLifetime pm then (cached, pm)
          else
            let priorities = sort_priorities (gather st envs ns)
            in (priorities, pm\<lparr>priorityCache := Some priorities, lastEvaluation := now\<rparr>)
      | None \<Rightarrow>
          let priorities = sort_priorities (gather st envs ns)
          in (priorities, pm\<lparr>priorityCache := Some priorities, lastEvaluation := now\<rparr>))"

definition getTopPriority ::
  "priority_manager \<Rightarrow> int \<Rightarrow> game_state \<Rightarrow> (string \<rightharpoonup> environment) \<Rightarrow> npc list
   \<Rightarrow> priority option \<times> priority_manager" where
  "getTopPriority pm now st envs ns =
     (let r = evaluate pm now st envs ns; priorities = fst r
      in (if length priorities > 0 then Some (hd priorities) else None, snd r))"

definition invalidateCache :: "priority_manager \<Rightarrow> priority_manager" where
  "invalidateCache pm = pm\<lparr>priorityCache := None, lastEvaluation := 0\<rparr>"

text \<open>The managers that the constructor, \<open>evaluate\<close> and \<open>invalidateCache\<close> produce.\<close>

inductive reachable :: "priority_manager \<Rightarrow> bool" where
  fresh: "reachable new_PriorityManager"
| evaluated: "reachable pm \<Longrightarrow> reachable (snd (evaluate pm now st envs ns))"
| invalidated: "reachable pm \<Longrightarrow> reachable (invalidateCache pm)"




text \<open>A snapshot with nothing in it: no room, no NPCs, no conditions.\<close>

definition empty_world :: game_state where
  "empty_world = new_GameState"

text \<open>
  The items the ordering and fallback properties speak about, as \<open>evaluate\<close> builds them,
  and a hostile, engaged, conscious NPC in the current room: what \<open>getCombatants\<close>
  selects.
\<close>

definition inventory_item :: "game_state \<Rightarrow> priority" where
  "inventory_item st =
     \<lparr>ptype = ''inventory'', tier = TIER_SELF, weight = 20, data = Equipment (equipment (player st))\<rparr>"

definition vitals_item :: "game_state \<Rightarrow> priority" where
  "vitals_item st =
     \<lparr>ptype = ''vitals'', tier = TIER_SELF, weight = 15, data = Vitals (player_vitals (player st))\<rparr>"




section \<open>Properties of the vitals model\<close>

lemma updateConditions_fields [simp]:
  "health (updateConditions v) = health v"
  "maxHealth (updateConditions v) = maxHealth v"
  "stamina (updateConditions v) = stamina v"
  "maxStamina (updateConditions v) = maxStamina v"
  "stress (updateConditions v) = stress v"
  "detection (updateConditions v) = detection v"
  "effects (updateConditions v) = effects v"
  by (simp_all add: updateConditions_def Let_def)

lemma vitals_property_updateConditions:
  "vitals_property (updateConditions v) name = vitals_property v name"
  by (simp add: vitals_property_def)

lemma modifyVital_snd [simp]: "snd (modifyVital vital d v) = modifyVital_update vital d v"
  by (simp add: modifyVital_def Let_def)

lemma modifyVital_maxima [simp]:
  "maxHealth (modifyVital_update vital d v) = maxHealth v"
  "maxStamina (modifyVital_update vital d v) = maxStamina v"
  by (simp_all add: modifyVital_update_def Let_def)



lemma vital_max_modifyVital [simp]:
  "vital_max vital (modifyVital_update vital' d v) = vital_max vital v"
  by (simp add: vital_max_def)



text \<open>
  C10, as the claim states it, fails for a name that is another property of the object:
  \<open>modifyVital('maxHealth', 5)\<close> returns the number 100, not \<open>undefined\<close>.
\<close>

theorem modifyVital_unknown_name_counterexample:
  "''maxHealth'' \<notin> vital_names
   \<and> fst (modifyVital ''maxHealth'' 5 new_VitalsSystem) = JNumber 100
   \<and> fst (modifyVital ''maxHealth'' 5 new_VitalsSystem) \<noteq> JUndefined"
  by (simp add: vital_names_def modifyVital_def modifyVital_update_def vitals_property_def
      new_VitalsSystem_def Let_def)

text \<open>
  C10, amended. For a name outside health, stamina, stress and detection and any amount,
  \<open>modifyVital\<close> leaves the four vitals, both maxima and the timed effects unchanged:
  the object it leaves is the one \<open>updateConditions\<close> alone produces. The value it
  returns is the property of the object under that name, which is \<open>undefined\<close> when the
  name is neither a field nor a method of the object.
\<close>

theorem modifyVital_unknown_name:
  assumes "vital \<notin> vital_names"
  shows "snd (modifyVital vital amount v) = updateConditions v
       \<and> health (snd (modifyVital vital amount v)) = health v
       \<and> stamina (snd (modifyVital vital amount v)) = stamina v
       \<and> stress (snd (modifyVital vital amount v)) = stress v
       \<and> detection (snd (modifyVital vital amount v)) = detection v
       \<and> maxHealth (snd (modifyVital vital amount v)) = maxHealth v
       \<and> maxStamina (snd (modifyVital vital amount v)) = maxStamina v
       \<and> effects (snd (modifyVital vital amount v)) = effects v
       \<and> fst (modifyVital vital amount v) = vitals_property v vital
       \<and> (vital \<notin> {''maxHealth'', ''maxStamina'', ''conditions'', ''effects''}
              \<union> set vitals_method_names \<union> set object_prototype_names
            \<longrightarrow> fst (modifyVital vital amount v) = JUndefined)"
proof -
  have s: "snd (modifyVital vital amount v) = updateConditions v"
    using assms by (simp add: vital_names_def modifyVital_update_def Let_def)
  have f: "fst (modifyVital vital amount v) = vitals_property v vital"
    using assms
    by (simp add: vital_names_def modifyVital_def modifyVital_update_def Let_def
        vitals_property_updateConditions)
  have u: "vital \<notin> {''maxHealth'', ''maxStamina'', ''conditions'', ''effects''}
              \<union> set vitals_method_names \<union> set object_prototype_names
            \<Longrightarrow> vitals_property v vital = JUndefined"
    using assms
    by (auto simp: vitals_property_def vital_names_def object_prototype_names_def)
  show ?thesis using s f u by simp
qed

theorem modifyVital_unknown_name_witness:
  "''mana'' \<notin> vital_names
   \<and> health (snd (modifyVital ''mana'' 40 new_VitalsSystem)) = 100
   \<and> fst (modifyVital ''mana'' 40 new_VitalsSystem) = JUndefined"
proof -
  have a: "''mana'' \<notin> vital_names" by (simp add: vital_names_def)
  have b: "''mana'' \<notin> {''maxHealth'', ''maxStamina'', ''conditions'', ''effects''}
              \<union> set vitals_method_names \<union> set object_prototype_names"
    by (simp add: vitals_method_names_def object_prototype_names_def)
  have h: "health new_VitalsSystem = 100" by (simp add: new_VitalsSystem_def)
  show ?thesis
    using modifyVital_unknown_name [OF a, of 40 new_VitalsSystem] a b h
    by (simp add: vitals_property_def vitals_method_names_def object_prototype_names_def)
qed


section \<open>Properties of the mode manager\<close>

lemma MODES_get_recognized:
  "recognized_mode m \<Longrightarrow> \<exists>c. MODES_get m = Own c"
  by (auto simp: recognized_mode_def MODES_get_def MODES_def split: option.splits)

lemma MODES_get_Absent:
  "MODES_get m = Absent \<longleftrightarrow> \<not> recognized_mode m \<and> m \<notin> set object_prototype_names"
  by (auto simp: recognized_mode_def MODES_get_def MODES_def split: option.splits if_splits)

text \<open>
  A call is rejected, with the manager untouched, when the lock is held, when the target
  is the current mode, and when \<open>MODES[target]\<close> is \<open>undefined\<close>.
\<close>

lemma transitionTo_rejects:
  assumes "transitionLocked mm \<or> newMode = currentMode mm \<or> MODES_get newMode = Absent"
  shows "transitionTo now newMode opts mm = (False, mm)"
  using assms by (auto simp: transitionTo_def truthy_def)

text \<open>A successful call holds the lock, so a second call before the timer fires is rejected.\<close>

lemma transitionTo_locks:
  assumes "transitionTo now newMode opts mm = (True, mm')"
  shows "transitionLocked mm' \<and> currentMode mm' = newMode
         \<and> transitionTo now' other opts' mm' = (False, mm')"
  using assms by (auto simp: transitionTo_def Let_def split: if_splits)

text \<open>
  In time: when no older timer is pending, the lock taken at \<open>now\<close> is still held at
  any moment before \<open>now\<close> plus the lock duration, and a call made then is rejected.
\<close>

lemma transitionTo_lock_window:
  assumes "transitionTo now newMode opts mm = (True, mm')" "lockTimers mm = []"
    and "now' < now + lock_delay opts"
  shows "run_lock_timers now' mm' = mm'"
    and "transitionTo now' other opts' (run_lock_timers now' mm') = (False, mm')"
proof -
  have t: "lockTimers mm' = [now + lock_delay opts]" and l: "transitionLocked mm'"
    using assms(1,2) by (auto simp: transitionTo_def Let_def split: if_splits)
  show r: "run_lock_timers now' mm' = mm'"
    using assms(3) by (simp add: run_lock_timers_def t)
  show "transitionTo now' other opts' (run_lock_timers now' mm') = (False, mm')"
    using l by (simp add: r transitionTo_def)
qed

text \<open>
  C7 at the name \<open>constructor\<close>, which is not one of the six modes: the guard
  \<open>!MODES[newMode]\<close> finds the member inherited from \<open>Object.prototype\<close>, so the call
  on a fresh manager returns true, changes the current mode, pushes nothing, takes the
  lock and emits a mode-changed event without card states.
\<close>

theorem transitionTo_inherited_name_accepted:
  "\<not> recognized_mode ''constructor''
   \<and> \<not> transitionLocked new_ModeManager
   \<and> currentMode new_ModeManager \<noteq> ''constructor''
   \<and> transitionTo 0 ''constructor'' no_options new_ModeManager =
       (True, \<lparr>currentMode = ''constructor'', previousMode = Some ''exploration'',
               modeStack = [], transitionLocked = True, lockTimers = [300],
               mode_events = [ModeChanged ''exploration'' ''constructor'' None]\<rparr>)"
  by (simp add: recognized_mode_def MODES_def GAME_PHASES new_ModeManager_def
      transitionTo_def truthy_def MODES_get_def object_prototype_names_def no_options_def
      lock_delay_def cardStates_of_def Let_def)



section \<open>Properties of NPC awareness\<close>

text \<open>
  On the vitals alone, decay changes the awareness field in one way only: from
  suspicious to unaware, when the decayed suspicion is below 30.
\<close>

lemma decaySuspicion_awareness:
  assumes "vitals_awareness (decaySuspicion amount v) \<noteq> vitals_awareness v"
  shows "vitals_awareness v = SUSPICIOUS
         \<and> vitals_awareness (decaySuspicion amount v) = UNAWARE
         \<and> suspicion (decaySuspicion amount v) < 30"
  using assms by (auto simp: decaySuspicion_def Let_def split: if_splits)

lemma decaySuspicion_keeps_alert_hostile:
  assumes "vitals_awareness v = ALERT \<or> vitals_awareness v = HOSTILE"
  shows "vitals_awareness (decaySuspicion amount v) = vitals_awareness v"
  using assms by (auto simp: decaySuspicion_def Let_def)



lemma modifyVital_update_simps:
  "modifyVital_update ''health'' d v =
     updateConditions (v\<lparr>health := max 0 (min (maxHealth v) (health v + d))\<rparr>)"
  "modifyVital_update ''stamina'' d v =
     updateConditions (v\<lparr>stamina := max 0 (min (maxStamina v) (stamina v + d))\<rparr>)"
  "modifyVital_update ''stress'' d v =
     updateConditions (v\<lparr>stress := max 0 (min 100 (stress v + d))\<rparr>)"
  "modifyVital_update ''detection'' d v =
     updateConditions (v\<lparr>detection := max 0 (min 100 (detection v + d))\<rparr>)"
  by (simp_all add: modifyVital_update_def Let_def)

lemma updateConditions_rested:
  assumes "conditions v = {}" "stress v \<le> 70" "health v \<ge> 30" "stamina v \<ge> 20"
  shows "updateConditions v = v"
  using assms by (simp add: updateConditions_def thresholds Let_def)

lemma modifyVital_npc_fields [simp]:
  "suspicion (modifyVital_update vital d v) = suspicion v"
  "vitals_awareness (modifyVital_update vital d v) = vitals_awareness v"
  "alertCooldown (modifyVital_update vital d v) = alertCooldown v"
  by (simp_all add: modifyVital_update_def updateConditions_def Let_def)

lemma vitals_tick_npc_fields [simp]:
  "suspicion (vitals_tick v) = suspicion v"
  "vitals_awareness (vitals_tick v) = vitals_awareness v"
  "alertCooldown (vitals_tick v) = alertCooldown v"
  by (simp_all add: vitals_tick_def Let_def)

lemma updateAwareness_vitals [simp]: "vitals (updateAwareness n) = vitals n"
  by (simp add: updateAwareness_def Let_def)

text \<open>What a tick does to awareness and suspicion of an NPC that can act.\<close>

lemma tick_awareness:
  assumes "canAct (vitals n)"
  shows "awareness (tick n) =
           awareness (updateAwareness
             (if \<not> engaged n \<and> awareness n \<noteq> HOSTILE
              then n\<lparr>vitals := decaySuspicion 1 (vitals n)\<rparr> else n))"
    and "suspicion (vitals (tick n)) =
           (if \<not> engaged n \<and> awareness n \<noteq> HOSTILE
            then suspicion (decaySuspicion 1 (vitals n)) else suspicion (vitals n))"
  using assms by (simp_all add: tick_def Let_def)

lemma alert_guard_facts:
  "canAct (vitals alert_guard)" "\<not> engaged alert_guard" "awareness alert_guard = ALERT"
  "decaySuspicion 1 (vitals alert_guard) = new_NPCVitals\<lparr>suspicion := 69\<rparr>"
  by (simp_all add: alert_guard_def new_NPC_def new_NPCVitals_def canAct_def
      decaySuspicion_def Let_def)

lemma vitals_tick_rested:
  "vitals_tick (new_NPCVitals\<lparr>suspicion := s\<rparr>) = new_NPCVitals\<lparr>suspicion := s\<rparr>"
proof -
  let ?v = "new_NPCVitals\<lparr>suspicion := s\<rparr>"
  have c: "''injured'' \<notin> conditions ?v" "detection ?v < DETECTION_SUSPICIOUS"
    by (simp_all add: new_NPCVitals_def thresholds)
  have e: "?v\<lparr>effects := filter (\<lambda>(k, remaining). \<not> remaining \<le> 0)
                   (map (\<lambda>(k, remaining). (k, remaining - 1)) (effects ?v))\<rparr> = ?v"
    by (simp add: new_NPCVitals_def)
  have s1: "modifyVital_update ''stress'' (- 1) ?v = ?v"
    unfolding modifyVital_update_simps
    by (subst updateConditions_rested) (simp_all add: new_NPCVitals_def)
  have s2: "modifyVital_update ''stamina'' (1 / 2) ?v = ?v"
    unfolding modifyVital_update_simps
    by (subst updateConditions_rested) (simp_all add: new_NPCVitals_def)
  show ?thesis
    unfolding vitals_tick_def Let_def using c by (simp only: if_False if_True e s1 s2)
qed

lemma decayed_guard_sel:
  "vitals (decayed_guard k) = new_NPCVitals\<lparr>suspicion := 70 - real k\<rparr>"
  "engaged (decayed_guard k) = False"
  "actionCooldown (decayed_guard k) = 0"
  "awareness (decayed_guard k) \<noteq> HOSTILE"
  by (simp_all add: decayed_guard_def alert_guard_def new_NPC_def)

lemma decay_rested:
  "k < 70 \<Longrightarrow> decaySuspicion 1 (new_NPCVitals\<lparr>suspicion := 70 - real k\<rparr>)
     = new_NPCVitals\<lparr>suspicion := 70 - real (Suc k)\<rparr>"
  by (simp add: decaySuspicion_def new_NPCVitals_def Let_def)

lemma tick_decayed_guard:
  assumes "k < 70"
  shows "tick (decayed_guard k) = decayed_guard (Suc k)"
proof -
  have ca: "canAct (vitals (decayed_guard k))"
    by (simp add: decayed_guard_sel canAct_def new_NPCVitals_def)
  let ?n1 = "(decayed_guard k)\<lparr>vitals := new_NPCVitals\<lparr>suspicion := 70 - real (Suc k)\<rparr>\<rparr>"
  have ua: "updateAwareness ?n1 = decayed_guard (Suc k)"
    using assms
    by (simp add: updateAwareness_def Let_def decayed_guard_def alert_guard_def new_NPC_def
        new_NPCVitals_def)
  have "tick (decayed_guard k) =
          (decayed_guard (Suc k))\<lparr>vitals := vitals_tick (vitals (decayed_guard (Suc k)))\<rparr>"
    unfolding tick_def Let_def using ca assms
    by (simp add: decayed_guard_sel decay_rested ua del: of_nat_Suc)
  also have "\<dots> = decayed_guard (Suc k)"
    by (simp add: decayed_guard_sel vitals_tick_rested del: of_nat_Suc)
  finally show ?thesis .
qed

lemma ticks_decayed_guard: "k \<le> 70 \<Longrightarrow> (tick ^^ k) alert_guard = decayed_guard k"
proof (induction k)
  case 0
  show ?case by (simp add: decayed_guard_def alert_guard_def new_NPC_def)
next
  case (Suc k)
  then show ?case by (simp add: tick_decayed_guard)
qed

text \<open>A hostile NPC whose suspicion has reached 100 stays hostile: it is not decayed.\<close>

lemma tick_keeps_hostile:
  assumes "canAct (vitals n)" "awareness n = HOSTILE" "suspicion (vitals n) \<ge> 100"
  shows "awareness (tick n) = HOSTILE \<and> suspicion (vitals (tick n)) = suspicion (vitals n)"
  using assms by (simp add: tick_awareness updateAwareness_def Let_def)

text \<open>
  C1 at an alert NPC that is not engaged and whose suspicion stands at the alert
  threshold 70. One \<open>tick\<close>, with no other action, decays the suspicion to 69, and
  \<open>updateAwareness\<close> then sets the NPC's awareness to suspicious; sixty-one ticks
  leave the NPC unaware.
\<close>

theorem tick_reverts_alert:
  "awareness alert_guard = ALERT
   \<and> \<not> engaged alert_guard
   \<and> awareness (tick alert_guard) = SUSPICIOUS
   \<and> suspicion (vitals (tick alert_guard)) = 69
   \<and> awareness ((tick ^^ 61) alert_guard) = UNAWARE"
proof -
  have "awareness (tick alert_guard) = SUSPICIOUS \<and> suspicion (vitals (tick alert_guard)) = 69"
    using alert_guard_facts
    by (simp add: tick_awareness updateAwareness_def Let_def new_NPCVitals_def)
  moreover have "awareness ((tick ^^ 61) alert_guard) = UNAWARE"
    by (simp add: ticks_decayed_guard decayed_guard_def)
  ultimately show ?thesis using alert_guard_facts by simp
qed



section \<open>Properties of the main loop\<close>

lemma effect_fields [simp]:
  "state (effect e g) = state g"
  "animationId (effect e g) = animationId g"
  "trace (effect e g) = trace g @ [e]"
  "modeManager (effect e g) = modeManager g"
  "detectionEnabled (effect e g) = detectionEnabled g"
  by (simp_all add: effect_def)

lemma stop_fields [simp]:
  "state (stop g) = state g"
  "trace (stop g) = trace g @ (case animationId g of None \<Rightarrow> []
                               | Some i \<Rightarrow> if i = 0 then [] else [CancelAnimationFrame i])"
  by (simp_all add: stop_def split: option.splits)

lemma hasFlag_setFlag [simp]: "hasFlag k (setFlag k True st)"
  by (simp add: hasFlag_def setFlag_def)















lemma combat_scene_mode: "currentMode (modeManager combat_scene) = ''combat''"
  by (simp add: combat_scene_def transitionTo_def new_ModeManager_def truthy_def MODES_get_def
      MODES_def GAME_PHASES Let_def)

lemma MODES_get_six:
  "MODES_get ''exploration'' = Own exploration_mode"
  "MODES_get ''dialogue'' = Own dialogue_mode"
  "MODES_get ''combat'' = Own combat_mode"
  by (simp_all add: MODES_get_def MODES_def GAME_PHASES)

lemma includes_value_object [simp]: "includes_value xs (ModeObject m) = False"
  by (simp add: includes_value_def)

lemma canCheck_combat: "canCheckDetection 2000 combat_scene"
  unfolding canCheckDetection_def current_mode_value_def getCurrentMode_def combat_scene_mode
  by (simp add: MODES_get_six truthy_def Let_def DETECTION_CHECK_INTERVAL_def)
     (simp add: combat_scene_def new_GlassShadow_def)


lemma detect_loop_skip:
  assumes "get_npc i g = Some n" "engaged n \<or> Some (location n) \<noteq> currentEnvironment (state g)"
  shows "detect_loop rnd now env (i # ids) g = detect_loop rnd now env ids g"
  using assms by auto

lemma detect_loop_spotted_low:
  assumes "get_npc i g = Some n" "\<not> engaged n" "Some (location n) = currentEnvironment (state g)"
    and "rnd i * 100 < detectChance env (state g) n"
    and "pv_detection (player_vitals (player (state g))) + DETECTION_INCREMENT < 30"
  shows "detect_loop rnd now env (i # ids) g =
           detect_loop rnd now env ids
             (effect (Emit ''detection:increased'' i)
                (set_detection (pv_detection (player_vitals (player (state g))) + DETECTION_INCREMENT) g))"
  using assms by (simp add: Let_def)

lemma set_detection_fields [simp]:
  "pv_detection (player_vitals (player (state (set_detection d g)))) = d"
  by (simp add: set_detection_def)

lemma get_npc_lastDetectionCheck [simp]:
  "get_npc i (g\<lparr>lastDetectionCheck := t\<rparr>) = get_npc i g"
  by (simp add: get_npc_def)

lemma new_NPC_sel [simp]:
  "npc_id (new_NPC i l a) = i" "location (new_NPC i l a) = l" "awareness (new_NPC i l a) = a"
  "engaged (new_NPC i l a) = False" "alreadySpotted (new_NPC i l a) = False"
  "engagementHandled (new_NPC i l a) = False" "dialogueId (new_NPC i l a) = None"
  "npc_type (new_NPC i l a) = ''generic''" "vitals (new_NPC i l a) = new_NPCVitals"
  by (simp_all add: new_NPC_def)

lemma combat_scene_npcs:
  "get_npc ''guard-1'' combat_scene
     = Some ((new_NPC ''guard-1'' ''lobby'' HOSTILE)\<lparr>engaged := True\<rparr>)"
  "get_npc ''guard-2'' combat_scene
     = Some (new_NPC ''guard-2'' ''lobby'' UNAWARE)"
  by (simp_all add: get_npc_def combat_scene_def new_GameState_def)

lemma combat_scene_state:
  "currentEnvironment (state combat_scene) = Some ''lobby''"
  "environments combat_scene ''lobby'' = Some lobby_room"
  "map npc_id (npcs (state combat_scene)) = [''guard-1'', ''guard-2'']"
  "pv_detection (player_vitals (player (state combat_scene))) = 0"
  "player_conditions (player (state combat_scene)) = []"
  "pv_stress (player_vitals (player (state combat_scene))) = 0"
  by (simp_all add: combat_scene_def new_GameState_def)

lemma combat_scene_chance:
  "detectChance lobby_room (state combat_scene) (new_NPC ''guard-2'' ''lobby'' UNAWARE) = 8"
  unfolding detectChance_def Let_def combat_scene_state
  by (simp add: lobby_room_def DETECTION_BASE_CHANCE_def)

text \<open>
  C2 in the combat scene: the mode is combat, yet the detection block of \<open>update\<close>
  runs \<open>checkNPCDetection\<close>, and the second guard's successful roll raises the
  player's detection from 0 to 5.
\<close>

theorem detection_check_runs_in_combat:
  "currentMode (modeManager combat_scene) = ''combat''
   \<and> pv_detection (player_vitals (player (state combat_scene))) = 0
   \<and> pv_detection (player_vitals (player (state (update_detection always_spots 2000 combat_scene)))) = 5"
proof -
  let ?g = "combat_scene\<lparr>lastDetectionCheck := 2000\<rparr>"
  have "update_detection always_spots 2000 combat_scene = checkNPCDetection always_spots 2000 ?g"
    using canCheck_combat by (simp add: update_detection_def)
  also have "\<dots> = detect_loop always_spots 2000 lobby_room [''guard-1'', ''guard-2''] ?g"
    by (simp add: checkNPCDetection_def combat_scene_state del: detect_loop.simps)
  also have "\<dots> = detect_loop always_spots 2000 lobby_room [''guard-2''] ?g"
    by (rule detect_loop_skip [where n = "(new_NPC ''guard-1'' ''lobby'' HOSTILE)\<lparr>engaged := True\<rparr>"])
       (simp_all add: combat_scene_npcs)
  also have "\<dots> = detect_loop always_spots 2000 lobby_room []
                      (effect (Emit ''detection:increased'' ''guard-2'')
                         (set_detection (0 + DETECTION_INCREMENT) ?g))"
    using detect_loop_spotted_low [where g = ?g and i = "''guard-2''" and ids = "[]"
        and n = "new_NPC ''guard-2'' ''lobby'' UNAWARE" and rnd = always_spots and env = lobby_room
        and now = 2000]
    by (simp add: combat_scene_state combat_scene_npcs combat_scene_chance always_spots_def
        DETECTION_INCREMENT_def del: detect_loop.simps)
  finally show ?thesis
    by (simp add: combat_scene_mode combat_scene_state DETECTION_INCREMENT_def)
qed



lemma enterRoom_fields:
  assumes "environments g r = Some env"
  shows "detectionEnabled (enterRoom now r g) = False"
    and "roomEntryTime (enterRoom now r g) = now"
    and "graceTimers (enterRoom now r g) = graceTimers g @ [now + DETECTION_GRACE_PERIOD]"
    and "currentEnvironment (state (enterRoom now r g)) = Some r"
    and "environments (enterRoom now r g) = environments g"
    and "modeManager (enterRoom now r g) = modeManager g"
    and "lastDetectionCheck (enterRoom now r g) = lastDetectionCheck g"
    and "player (state (enterRoom now r g)) = player (state g)"
    and "npcs (state (enterRoom now r g)) =
           map (\<lambda>n. if location n = r
                     then n\<lparr>alreadySpotted := False, engagementHandled := False\<rparr> else n)
               (npcs (state g))"
  using assms by (simp_all add: enterRoom_def Let_def effect_def)

lemma run_grace_timers_fields [simp]:
  "state (run_grace_timers now g) = state g"
  "environments (run_grace_timers now g) = environments g"
  "modeManager (run_grace_timers now g) = modeManager g"
  "lastDetectionCheck (run_grace_timers now g) = lastDetectionCheck g"
  "roomEntryTime (run_grace_timers now g) = roomEntryTime g"
  by (simp_all add: run_grace_timers_def)

lemma two_rooms_fields:
  "environments two_rooms ''lobby'' = Some lobby_room"
  "environments two_rooms ''hall'' = Some hall_room"
  "graceTimers two_rooms = []"
  "lastDetectionCheck two_rooms = 0"
  "modeManager two_rooms = new_ModeManager"
  "npcs (state two_rooms) = [new_NPC ''guard-2'' ''hall'' UNAWARE]"
  "player (state two_rooms) = player new_GameState"
  by (simp_all add: two_rooms_def new_GlassShadow_def)

lemma quick_crossing_fields:
  "detectionEnabled quick_crossing = False"
  "roomEntryTime quick_crossing = 2000"
  "graceTimers quick_crossing = [3000, 5000]"
  "currentEnvironment (state quick_crossing) = Some ''hall''"
  "environments quick_crossing ''hall'' = Some hall_room"
  "modeManager quick_crossing = new_ModeManager"
  "lastDetectionCheck quick_crossing = 0"
  "player (state quick_crossing) = player new_GameState"
  "npcs (state quick_crossing) = [new_NPC ''guard-2'' ''hall'' UNAWARE]"
proof -
  let ?g1 = "enterRoom 0 ''lobby'' two_rooms"
  let ?g2 = "run_grace_timers 2000 ?g1"
  have t1: "graceTimers ?g1 = [3000]"
    by (simp add: enterRoom_fields [OF two_rooms_fields(1)] two_rooms_fields DETECTION_GRACE_PERIOD_def)
  have t2: "graceTimers ?g2 = [3000]"
    by (simp add: run_grace_timers_def t1)
  have e2: "environments ?g2 ''hall'' = Some hall_room"
    by (simp add: enterRoom_fields [OF two_rooms_fields(1)] two_rooms_fields)
  show "detectionEnabled quick_crossing = False" "roomEntryTime quick_crossing = 2000"
    "currentEnvironment (state quick_crossing) = Some ''hall''"
    unfolding quick_crossing_def by (simp_all add: enterRoom_fields [OF e2])
  show "graceTimers quick_crossing = [3000, 5000]"
    unfolding quick_crossing_def
    by (simp add: enterRoom_fields [OF e2] t2 DETECTION_GRACE_PERIOD_def)
  show "environments quick_crossing ''hall'' = Some hall_room"
    "modeManager quick_crossing = new_ModeManager" "lastDetectionCheck quick_crossing = 0"
    "player (state quick_crossing) = player new_GameState"
    unfolding quick_crossing_def
    by (simp_all add: enterRoom_fields [OF e2] enterRoom_fields [OF two_rooms_fields(1)] two_rooms_fields)
  show "npcs (state quick_crossing) = [new_NPC ''guard-2'' ''hall'' UNAWARE]"
    unfolding quick_crossing_def
    by (simp add: enterRoom_fields [OF e2] enterRoom_fields [OF two_rooms_fields(1)] two_rooms_fields)
qed


lemma get_npc_run_grace_timers [simp]: "get_npc i (run_grace_timers now g) = get_npc i g"
  by (simp add: get_npc_def)

lemma new_ModeManager_mode_value:
  "modeManager g = new_ModeManager \<Longrightarrow>
   \<not> includes_value [''combat'', ''dialogue''] (current_mode_value g)"
  by (simp add: current_mode_value_def getCurrentMode_def new_ModeManager_def GAME_PHASES
      MODES_get_six truthy_def Let_def)

text \<open>
  C5 in the quick crossing: the player entered the hall at time 2000, so the grace window
  runs to 5000. The timer of the earlier room entry fires at 3000 and switches detection
  on; the frame at 3001 runs the detection check, and the guard's successful roll raises
  the player's detection from 0 to 5.
\<close>

theorem grace_window_cut_short:
  "roomEntryTime quick_crossing = 2000
   \<and> \<not> detectionEnabled quick_crossing
   \<and> 3001 - roomEntryTime quick_crossing < DETECTION_GRACE_PERIOD
   \<and> pv_detection (player_vitals (player (state quick_crossing))) = 0
   \<and> pv_detection (player_vitals (player (state (frame always_spots 3001 quick_crossing)))) = 5"
proof -
  let ?g = "run_grace_timers 3001 quick_crossing"
  let ?h = "?g\<lparr>lastDetectionCheck := 3001\<rparr>"
  have en: "detectionEnabled ?g"
    by (simp add: run_grace_timers_def quick_crossing_fields)
  have can: "canCheckDetection 3001 ?g"
    unfolding canCheckDetection_def
    using en new_ModeManager_mode_value [of ?g]
    by (simp add: quick_crossing_fields DETECTION_CHECK_INTERVAL_def)
  have npc: "get_npc ''guard-2'' ?h = Some (new_NPC ''guard-2'' ''hall'' UNAWARE)"
    by (simp add: get_npc_def quick_crossing_fields)
  have ch: "detectChance hall_room (state ?h) (new_NPC ''guard-2'' ''hall'' UNAWARE) = 8"
    unfolding detectChance_def Let_def
    by (simp add: quick_crossing_fields new_GameState_def hall_room_def DETECTION_BASE_CHANCE_def)
  have d0: "pv_detection (player_vitals (player (state ?h))) = 0"
    by (simp add: quick_crossing_fields new_GameState_def)
  have "frame always_spots 3001 quick_crossing = checkNPCDetection always_spots 3001 ?h"
    using can by (simp add: frame_def update_detection_def)
  also have "\<dots> = detect_loop always_spots 3001 hall_room [''guard-2''] ?h"
    by (simp add: checkNPCDetection_def quick_crossing_fields del: detect_loop.simps)
  also have "\<dots> = detect_loop always_spots 3001 hall_room []
                      (effect (Emit ''detection:increased'' ''guard-2'')
                         (set_detection (0 + DETECTION_INCREMENT) ?h))"
    using detect_loop_spotted_low [where g = ?h and i = "''guard-2''" and ids = "[]"
        and n = "new_NPC ''guard-2'' ''hall'' UNAWARE" and rnd = always_spots and env = hall_room
        and now = 3001] npc ch d0
    by (simp add: quick_crossing_fields always_spots_def DETECTION_INCREMENT_def
        del: detect_loop.simps)
  finally show ?thesis
    by (simp add: quick_crossing_fields new_GameState_def DETECTION_INCREMENT_def
        DETECTION_GRACE_PERIOD_def)
qed

text \<open>
  With no timer of an earlier room entry pending, the window holds: no frame inside it
  changes anything, and detection is on once it has elapsed.
\<close>

lemma grace_window_single:
  assumes "environments g r = Some env" "graceTimers g = []"
    and "now \<le> t" "t < now + DETECTION_GRACE_PERIOD"
  shows "frame rnd t (enterRoom now r g) = enterRoom now r g"
proof -
  have "run_grace_timers t (enterRoom now r g) = enterRoom now r g"
    using assms by (simp add: run_grace_timers_def enterRoom_fields [OF assms(1)])
  moreover have "\<not> canCheckDetection t (enterRoom now r g)"
    by (simp add: canCheckDetection_def enterRoom_fields [OF assms(1)])
  ultimately show ?thesis by (simp add: frame_def update_detection_def)
qed

lemma grace_window_over:
  assumes "environments g r = Some env" "now + DETECTION_GRACE_PERIOD \<le> t"
  shows "detectionEnabled (run_grace_timers t (enterRoom now r g))"
  using assms by (simp add: run_grace_timers_def enterRoom_fields [OF assms(1)])


subsection \<open>Action execution\<close>












section \<open>Properties of the priority list\<close>



lemma set_sort_priorities [simp]: "set (sort_priorities ps) = set ps"
  by (simp add: sort_priorities_def)

lemma length_sort_priorities [simp]: "length (sort_priorities ps) = length ps"
  by (simp add: sort_priorities_def)

lemma gather_self:
  "inventory_item st \<in> set (gather st envs ns)" "vitals_item st \<in> set (gather st envs ns)"
  unfolding gather_def Let_def inventory_item_def vitals_item_def
  by (simp_all only: set_append set_simps Un_iff insert_iff simp_thms)





text \<open>What the cache of a reachable manager holds.\<close>

lemma reachable_cache:
  assumes "reachable pm" "priorityCache pm = Some ps"
  shows "\<exists>st envs ns. ps = sort_priorities (gather st envs ns)"
  using assms
proof (induction arbitrary: ps rule: reachable.induct)
  case fresh
  then show ?case by (simp add: new_PriorityManager_def)
next
  case (evaluated pm now st envs ns)
  then show ?case
    by (auto simp: evaluate_def Let_def split: option.splits if_splits)
next
  case (invalidated pm)
  then show ?case by (simp add: invalidateCache_def)
qed

lemma evaluate_miss:
  assumes "\<not> cache_hit pm now"
  shows "fst (evaluate pm now st envs ns) = sort_priorities (gather st envs ns)"
  using assms by (auto simp: evaluate_def cache_hit_def Let_def split: option.splits)

lemma evaluate_hit:
  assumes "cache_hit pm now"
  shows "priorityCache pm = Some (fst (evaluate pm now st envs ns))"
  using assms by (auto simp: evaluate_def cache_hit_def Let_def split: option.splits)

lemma evaluate_is_sorted_gather:
  assumes "reachable pm"
  shows "\<exists>st' envs' ns'. fst (evaluate pm now st envs ns) = sort_priorities (gather st' envs' ns')
           \<and> (\<not> cache_hit pm now \<longrightarrow> st' = st \<and> envs' = envs \<and> ns' = ns)"
proof (cases "cache_hit pm now")
  case True
  then show ?thesis
    using reachable_cache [OF assms evaluate_hit [OF True]] by blast
next
  case False
  then show ?thesis using evaluate_miss [OF False] by blast
qed





text \<open>
  C9. For a manager reached through the constructor, \<open>evaluate\<close> and
  \<open>invalidateCache\<close>, and for every snapshot, the returned list holds an inventory item
  (Self tier, weight 20) and a vitals item (Self tier, weight 15); when the cache is not
  used they are the items of the snapshot given. So the list is never empty and
  \<open>getTopPriority\<close> returns its first element, never \<open>null\<close>.
\<close>

theorem evaluate_has_self_items:
  assumes "reachable pm"
  shows "(\<exists>p \<in> set (fst (evaluate pm now st envs ns)).
            ptype p = ''inventory'' \<and> tier p = TIER_SELF \<and> weight p = 20)
     \<and> (\<exists>p \<in> set (fst (evaluate pm now st envs ns)).
            ptype p = ''vitals'' \<and> tier p = TIER_SELF \<and> weight p = 15)
     \<and> (\<not> cache_hit pm now \<longrightarrow>
            inventory_item st \<in> set (fst (evaluate pm now st envs ns))
            \<and> vitals_item st \<in> set (fst (evaluate pm now st envs ns)))
     \<and> fst (evaluate pm now st envs ns) \<noteq> []
     \<and> fst (getTopPriority pm now st envs ns) = Some (hd (fst (evaluate pm now st envs ns)))
     \<and> fst (getTopPriority pm now st envs ns) \<noteq> None"
proof -
  let ?ps = "fst (evaluate pm now st envs ns)"
  obtain st' envs' ns' where g: "?ps = sort_priorities (gather st' envs' ns')"
      and f: "\<not> cache_hit pm now \<longrightarrow> st' = st \<and> envs' = envs \<and> ns' = ns"
    using evaluate_is_sorted_gather [OF assms] by blast
  have i: "inventory_item st' \<in> set ?ps" and v: "vitals_item st' \<in> set ?ps"
    unfolding g by (simp_all add: gather_self)
  have 1: "\<exists>p \<in> set ?ps. ptype p = ''inventory'' \<and> tier p = TIER_SELF \<and> weight p = 20"
    using i by (rule bexI [rotated]) (simp add: inventory_item_def)
  have 2: "\<exists>p \<in> set ?ps. ptype p = ''vitals'' \<and> tier p = TIER_SELF \<and> weight p = 15"
    using v by (rule bexI [rotated]) (simp add: vitals_item_def)
  have 3: "\<not> cache_hit pm now \<longrightarrow> inventory_item st \<in> set ?ps \<and> vitals_item st \<in> set ?ps"
    using i v f by auto
  have 4: "?ps \<noteq> []" using i by auto
  then have 5: "fst (getTopPriority pm now st envs ns) = Some (hd ?ps)"
    by (simp add: getTopPriority_def Let_def)
  show ?thesis using 1 2 3 4 5 by simp
qed

lemma gather_empty_world:
  "gather empty_world Map.empty [] = [inventory_item empty_world, vitals_item empty_world]"
proof -
  have u: "\<not> hasEffects (getUIModifiers empty_world)"
    by (simp add: getUIModifiers_def empty_world_def new_GameState_def thresholds Let_def)
  have c: "getCriticalConditions empty_world = []"
    by (simp add: getCriticalConditions_def empty_world_def new_GameState_def thresholds Let_def)
  have e: "currentEnvironment empty_world = None"
    by (simp add: empty_world_def new_GameState_def)
  show ?thesis
    unfolding gather_def Let_def e
    by (simp add: u c getCombatants_def getEngagedNPCs_def getNearbyNPCs_def
        checkObjectiveProximity_def getEnvironmentActions_def getInteractiveElements_def
        inventory_item_def vitals_item_def)
qed

theorem evaluate_has_self_items_witness:
  "reachable new_PriorityManager
   \<and> \<not> cache_hit new_PriorityManager 0
   \<and> fst (evaluate new_PriorityManager 0 empty_world Map.empty [])
       = [inventory_item empty_world, vitals_item empty_world]
   \<and> fst (getTopPriority new_PriorityManager 0 empty_world Map.empty [])
       = Some (inventory_item empty_world)"
proof -
  have r: "reachable new_PriorityManager" by (rule reachable.fresh)
  have m: "\<not> cache_hit new_PriorityManager 0"
    by (simp add: cache_hit_def new_PriorityManager_def)
  have ev: "fst (evaluate new_PriorityManager 0 empty_world Map.empty [])
       = [inventory_item empty_world, vitals_item empty_world]"
    by (simp add: evaluate_miss [OF m] gather_empty_world sort_priorities_def
        inventory_item_def vitals_item_def)
  show ?thesis
    using evaluate_has_self_items [OF r, of 0 empty_world Map.empty "[]"] r m ev
    by simp
qed


end
